theory Spec2Isabelle
  imports Main "HOL-Library.Sublist"
begin

section \<open>Decoded JSON values and the Python operations used on them\<close>

text \<open>
  The validator (\<^verbatim>\<open>.github/scripts/validate_packages.py\<close>) works on what
  \<^verbatim>\<open>json.load\<close> returns: \<^verbatim>\<open>None\<close>, booleans, integers, floats, strings, lists and
  dictionaries with string keys. A dictionary is an association list in insertion order;
  \<^verbatim>\<open>json.load\<close> never produces a repeated key. A float is kept as its \<^verbatim>\<open>repr\<close> text: the
  script only ever compares decoded values with strings, so no arithmetic on floats is
  modelled. Python's \<^verbatim>\<open>None\<close> is \<open>JNull\<close>, both for a decoded \<^verbatim>\<open>null\<close> and for the
  \<^verbatim>\<open>None\<close> that \<^verbatim>\<open>load_json_file\<close> and \<^verbatim>\<open>dict.get\<close> return.
\<close>

datatype json =
    JNull
  | JBool bool
  | JInt int
  | JFloat string
  | JStr string
  | JArr "json list"
  | JObj "(string \<times> json) list"

type_synonym pydict = "(string \<times> json) list"

text \<open>
  The exceptions that the script does not catch. \<open>Raised e\<close> is an exception raised
  inside \<^verbatim>\<open>requests.head\<close> whose class is not a \<^verbatim>\<open>requests.exceptions.RequestException\<close>,
  with its text.
\<close>

datatype py_error = TypeError | AttributeError | KeyError | NotADirectoryError | Raised string

text \<open>\<^verbatim>\<open>k in d\<close>, \<^verbatim>\<open>d.get(k)\<close>, \<^verbatim>\<open>d[k]\<close> and \<^verbatim>\<open>d.keys()\<close> for a dictionary \<open>d\<close> and a string \<open>k\<close>.\<close>

definition dict_contains :: "string \<Rightarrow> pydict \<Rightarrow> bool" where
  "dict_contains k d = (k \<in> set (map fst d))"

definition dict_get :: "pydict \<Rightarrow> string \<Rightarrow> json" where
  "dict_get d k = (case map_of d k of None \<Rightarrow> JNull | Some v \<Rightarrow> v)"

definition dict_index :: "pydict \<Rightarrow> string \<Rightarrow> py_error + json" where
  "dict_index d k = (case map_of d k of None \<Rightarrow> Inl KeyError | Some v \<Rightarrow> Inr v)"

definition dict_keys :: "pydict \<Rightarrow> string list" where
  "dict_keys d = map fst d"

text \<open>
  \<^verbatim>\<open>x in d\<close> for an arbitrary decoded value \<open>x\<close>: the value is hashed first, and lists and
  dictionaries are unhashable (\<^verbatim>\<open>TypeError\<close>). The keys are strings, so a hashable value
  that is not a string is equal to none of them.
\<close>

fun hashable :: "json \<Rightarrow> bool" where
  "hashable (JArr xs) = False"
| "hashable (JObj d) = False"
| "hashable v = True"

definition value_in_dict :: "json \<Rightarrow> pydict \<Rightarrow> py_error + bool" where
  "value_in_dict x d =
     (if \<not> hashable x then Inl TypeError
      else Inr (case x of JStr s \<Rightarrow> dict_contains s d | _ \<Rightarrow> False))"

text \<open>
  \<^verbatim>\<open>k in x\<close> and \<^verbatim>\<open>x[k]\<close> for a string \<open>k\<close> and any decoded value \<open>x\<close>: key membership
  on a dictionary, element membership on a list, substring test on a string, \<^verbatim>\<open>TypeError\<close>
  on the other values; subscripting anything but a dictionary with a string is a
  \<^verbatim>\<open>TypeError\<close>.
\<close>

definition json_contains :: "string \<Rightarrow> json \<Rightarrow> py_error + bool" where
  "json_contains k x =
     (case x of
        JObj d \<Rightarrow> Inr (dict_contains k d)
      | JArr xs \<Rightarrow> Inr (JStr k \<in> set xs)
      | JStr s \<Rightarrow> Inr (sublist k s)
      | _ \<Rightarrow> Inl TypeError)"

definition json_index :: "json \<Rightarrow> string \<Rightarrow> py_error + json" where
  "json_index x k = (case x of JObj d \<Rightarrow> dict_index d k | _ \<Rightarrow> Inl TypeError)"

text \<open>
  \<^verbatim>\<open>s.replace(old, new)\<close>: one scan from the left, every occurrence found is replaced and
  the scan goes on behind it. With an empty \<open>old\<close>, \<open>new\<close> is put before every character
  and at the end.
\<close>

function py_replace :: "string \<Rightarrow> string \<Rightarrow> string \<Rightarrow> string" where
  "py_replace old new s =
     (if old = [] then new @ concat (map (\<lambda>c. c # new) s)
      else if s = [] then []
      else if prefix old s then new @ py_replace old new (drop (length old) s)
      else hd s # py_replace old new (tl s))"
  by pat_completeness auto
termination
  by (relation "measure (\<lambda>(old, new, s). length s)") auto

declare py_replace.simps [simp del]

text \<open>\<^verbatim>\<open>str(n)\<close> for an integer: its decimal digits, with a sign when negative.\<close>

function str_nat :: "nat \<Rightarrow> string" where
  "str_nat n =
     (if n < 10 then [''0123456789'' ! n]
      else str_nat (n div 10) @ [''0123456789'' ! (n mod 10)])"
  by pat_completeness auto
termination
  by (relation "measure (\<lambda>n. n)") auto

declare str_nat.simps [simp del]

definition str_int :: "int \<Rightarrow> string" where
  "str_int i = (if i < 0 then ''-'' @ str_nat (nat (- i)) else str_nat (nat i))"

text \<open>A string between single quotes, as the messages write \<^verbatim>\<open>'{x}'\<close>.\<close>

definition squote :: "string \<Rightarrow> string" where
  "squote s = CHR 0x27 # s @ [CHR 0x27]"

section \<open>Loader\<close>

text \<open>
  What opening and parsing a file can give. \<^verbatim>\<open>load_json_file\<close> catches every exception
  and returns \<^verbatim>\<open>None\<close>; a file that holds \<^verbatim>\<open>null\<close> gives \<^verbatim>\<open>None\<close> as well.
\<close>

datatype file_state = Missing | Malformed | Unreadable | Parsed json

fun load_json_file :: "file_state \<Rightarrow> json" where
  "load_json_file (Parsed j) = j"
| "load_json_file Malformed = JNull"
| "load_json_file Missing = JNull"
| "load_json_file Unreadable = JNull"

section \<open>Structure Validator\<close>

definition required_fields :: "string list" where
  "required_fields = [''name'', ''author'', ''description'', ''versions'']"

text \<open>
  \<open>py_str\<close> is Python's \<^verbatim>\<open>str\<close> on a decoded value, which the two f-strings that print
  a decoded value call; every result below holds for any such function. On a value that
  is not a dictionary the function raises: \<^verbatim>\<open>field not in package_data\<close> is a
  \<^verbatim>\<open>TypeError\<close> on a number, a boolean or \<^verbatim>\<open>None\<close>, and \<^verbatim>\<open>package_data.get\<close> is an
  \<^verbatim>\<open>AttributeError\<close> on a list or a string.
\<close>

definition validate_package_structure ::
  "(json \<Rightarrow> string) \<Rightarrow> string \<Rightarrow> json \<Rightarrow> py_error + string list" where
  "validate_package_structure py_str package_name package_data =
     (case package_data of
        JObj d \<Rightarrow>
          (let errors = [''Missing required field: '' @ field.
                           field \<leftarrow> required_fields, \<not> dict_contains field d];
               errors = (if dict_get d ''name'' \<noteq> JStr package_name
                         then errors @ [''Package name '' @ squote (py_str (dict_get d ''name''))
                                          @ '' doesn't match filename '' @ squote package_name]
                         else errors)
           in if dict_contains ''versions'' d then
                (case dict_index d ''versions'' of
                   Inl e \<Rightarrow> Inl e
                 | Inr versions \<Rightarrow>
                     (case versions of
                        JObj vs \<Rightarrow>
                          if dict_contains ''latest'' vs then
                            (case dict_index vs ''latest'' of
                               Inl e \<Rightarrow> Inl e
                             | Inr latest \<Rightarrow>
                                 (case value_in_dict latest vs of
                                    Inl e \<Rightarrow> Inl e
                                  | Inr found \<Rightarrow>
                                      Inr (if \<not> found
                                           then errors @ [''Latest version '' @ squote (py_str latest)
                                                            @ '' not found in versions'']
                                           else errors)))
                          else Inr (errors @ [''Missing 'latest' field in versions''])
                      | _ \<Rightarrow> Inr (errors @ [''Versions must be an object''])))
              else Inr errors)
      | JArr xs \<Rightarrow> Inl AttributeError
      | JStr s \<Rightarrow> Inl AttributeError
      | _ \<Rightarrow> Inl TypeError)"

section \<open>URL Checker\<close>

text \<open>
  The outcome of \<^verbatim>\<open>requests.head(download_url, timeout=TIMEOUT, allow_redirects=True)\<close>:
  a response with its status code, a \<^verbatim>\<open>requests.exceptions.Timeout\<close>, another
  \<^verbatim>\<open>requests.exceptions.RequestException\<close> with its text, or an exception of any other
  class with its text: the library lets some through (urllib3's \<^verbatim>\<open>LocationParseError\<close> on
  a URL such as \<^verbatim>\<open>http://a..b/\<close>), and the function has no handler for them, so they
  leave it. The network is a parameter: the outcome of a request may depend on the URL
  and on the requests sent before it. Each call that returns appends its URL to the list
  of requests sent.
\<close>

datatype head_outcome =
    Response int
  | Timeout
  | RequestException string
  | OtherException string

type_synonym network = "json list \<Rightarrow> json \<Rightarrow> head_outcome"

definition validate_version_download_url ::
  "network \<Rightarrow> json list \<Rightarrow> string \<Rightarrow> json \<Rightarrow> py_error + (bool \<times> string) \<times> json list" where
  "validate_version_download_url net sent version download_url =
     (case net sent download_url of
        Response status_code \<Rightarrow>
          Inr (if status_code = 200 then (True, '''')
               else if status_code = 404
                 then (False, ''URL not found (404) for version '' @ version)
               else (False, ''HTTP '' @ str_int status_code @ '' for version '' @ version),
               sent @ [download_url])
      | Timeout \<Rightarrow>
          Inr ((False, ''Timeout when checking download URL for version '' @ version),
               sent @ [download_url])
      | RequestException e \<Rightarrow>
          Inr ((False, ''Error checking download URL for version '' @ version @ '': '' @ e),
               sent @ [download_url])
      | OtherException e \<Rightarrow> Inl (Raised e))"

section \<open>Package Versions Validator\<close>

text \<open>
  The loop over \<^verbatim>\<open>version_keys\<close>, with the lists \<^verbatim>\<open>errors\<close> and \<^verbatim>\<open>warnings\<close> and the
  requests sent so far as its state.
\<close>

fun versions_loop ::
  "network \<Rightarrow> string \<Rightarrow> pydict \<Rightarrow> string list \<Rightarrow> string list \<times> string list \<times> json list
     \<Rightarrow> py_error + string list \<times> string list \<times> json list" where
  "versions_loop net package_name versions [] (errors, warnings, sent) =
     Inr (errors, warnings, sent)"
| "versions_loop net package_name versions (version # rest) (errors, warnings, sent) =
     (case dict_index versions version of
        Inl e \<Rightarrow> Inl e
      | Inr version_data \<Rightarrow>
          (case version_data of
             JObj vd \<Rightarrow>
               if \<not> dict_contains ''download'' vd then
                 versions_loop net package_name versions rest
                   (errors @ [''Version '' @ version @ '' missing download URL''], warnings, sent)
               else
                 (case dict_index vd ''download'' of
                    Inl e \<Rightarrow> Inl e
                  | Inr download_url \<Rightarrow>
                      (case validate_version_download_url net sent version download_url of
                         Inl e \<Rightarrow> Inl e
                       | Inr ((is_valid, message), sent') \<Rightarrow>
                           if \<not> is_valid then
                             versions_loop net package_name versions rest
                               (errors @ [''Invalid download URL for '' @ package_name @ ''@''
                                            @ version @ '': '' @ message], warnings, sent')
                           else versions_loop net package_name versions rest
                                  (errors, warnings, sent')))
           | _ \<Rightarrow>
               versions_loop net package_name versions rest
                 (errors,
                  warnings @ [''Version '' @ version @ '' is not an object (might be legacy format)''],
                  sent)))"

definition validate_package_versions ::
  "network \<Rightarrow> json list \<Rightarrow> string \<Rightarrow> json
     \<Rightarrow> py_error + string list \<times> string list \<times> json list" where
  "validate_package_versions net sent package_name package_data =
     (case json_contains ''versions'' package_data of
        Inl e \<Rightarrow> Inl e
      | Inr present \<Rightarrow>
          if \<not> present then Inr ([''Missing versions data''], [], sent)
          else
            (case json_index package_data ''versions'' of
               Inl e \<Rightarrow> Inl e
             | Inr versions \<Rightarrow>
                 (case versions of
                    JObj vs \<Rightarrow>
                      versions_loop net package_name vs
                        [k \<leftarrow> dict_keys vs. k \<notin> set [''latest'']] ([], [], sent)
                  | _ \<Rightarrow> Inl AttributeError)))"

section \<open>Index Consistency Checker\<close>

definition validate_index_consistency :: "json \<Rightarrow> string list \<Rightarrow> py_error + string list" where
  "validate_index_consistency index_data package_files =
     (case index_data of
        JObj idx \<Rightarrow>
          (let errors = [''Package '' @ squote package_name
                           @ '' in index.json but no corresponding file in packages/''.
                           package_name \<leftarrow> dict_keys idx,
                           package_name @ ''.json'' \<notin> set package_files];
               package_names_in_index = set (dict_keys idx)
           in Inr (errors @
                [''Package file '' @ squote package_file @ '' not referenced in index.json''.
                   package_file \<leftarrow> package_files,
                   py_replace ''.json'' '''' package_file \<notin> package_names_in_index]))
      | _ \<Rightarrow> Inl AttributeError)"

section \<open>Driver\<close>

text \<open>
  The registry on disk: the state of \<^verbatim>\<open>index.json\<close> and of the path \<^verbatim>\<open>packages\<close>, which
  is absent, something that is not a directory (\<^verbatim>\<open>os.listdir\<close> raises), or a directory
  whose entries are listed in the order \<^verbatim>\<open>os.listdir\<close> gives them, each with what loading
  it gives.
\<close>

datatype dir_state = NoDir | NotDir | Dir "(string \<times> file_state) list"

record registry =
  index_file :: file_state
  packages_dir :: dir_state

text \<open>
  The driver's counters, the requests sent, and the names of the packages whose
  validation was started (the line \<^verbatim>\<open>Validating package: ...\<close> of the output).
\<close>

record run_state =
  total_errors :: nat
  total_warnings :: nat
  requests :: "json list"
  validated :: "string list"

text \<open>The body of the loop over \<^verbatim>\<open>package_files\<close>.\<close>

definition process_package ::
  "(json \<Rightarrow> string) \<Rightarrow> network \<Rightarrow> string \<times> file_state \<Rightarrow> run_state \<Rightarrow> py_error + run_state" where
  "process_package py_str net entry st0 =
     (let package_file = fst entry;
          package_name = py_replace ''.json'' '''' package_file;
          st = st0\<lparr>validated := validated st0 @ [package_name]\<rparr>;
          package_data = load_json_file (snd entry)
      in if package_data = JNull then Inr (st\<lparr>total_errors := total_errors st + 1\<rparr>)
         else
           (case validate_package_structure py_str package_name package_data of
              Inl e \<Rightarrow> Inl e
            | Inr structure_errors \<Rightarrow>
                (let st1 = st\<lparr>total_errors := total_errors st + length structure_errors\<rparr>
                 in if structure_errors \<noteq> [] then Inr st1
                    else
                      (case validate_package_versions net (requests st1) package_name package_data of
                         Inl e \<Rightarrow> Inl e
                       | Inr (version_errors, version_warnings, sent) \<Rightarrow>
                           Inr (st1\<lparr>total_errors := total_errors st1 + length version_errors,
                                    total_warnings := total_warnings st1 + length version_warnings,
                                    requests := sent\<rparr>)))))"

fun package_loop ::
  "(json \<Rightarrow> string) \<Rightarrow> network \<Rightarrow> (string \<times> file_state) list \<Rightarrow> run_state
     \<Rightarrow> py_error + run_state" where
  "package_loop py_str net [] st = Inr st"
| "package_loop py_str net (entry # rest) st =
     (case process_package py_str net entry st of
        Inl e \<Rightarrow> Inl e
      | Inr st' \<Rightarrow> package_loop py_str net rest st')"

definition initial_state :: run_state where
  "initial_state = \<lparr>total_errors = 0, total_warnings = 0, requests = [], validated = []\<rparr>"

text \<open>\<^verbatim>\<open>main\<close> returns the exit status; the final state is returned with it.\<close>

definition main :: "(json \<Rightarrow> string) \<Rightarrow> network \<Rightarrow> registry \<Rightarrow> py_error + nat \<times> run_state" where
  "main py_str net reg =
     (let index_data = load_json_file (index_file reg)
      in if index_data = JNull then Inr (1, initial_state)
         else
           (case packages_dir reg of
              NoDir \<Rightarrow> Inr (1, initial_state)
            | NotDir \<Rightarrow> Inl NotADirectoryError
            | Dir entries \<Rightarrow>
                (let package_files = [entry \<leftarrow> entries. suffix ''.json'' (fst entry)]
                 in case validate_index_consistency index_data (map fst package_files) of
                      Inl e \<Rightarrow> Inl e
                    | Inr consistency_errors \<Rightarrow>
                        (case package_loop py_str net package_files
                                (initial_state\<lparr>total_errors := length consistency_errors\<rparr>) of
                           Inl e \<Rightarrow> Inl e
                         | Inr st \<Rightarrow> Inr (if total_errors st > 0 then 1 else 0, st)))))"

section \<open>Notions used to state the properties\<close>

text \<open>
  The stem of a file name as the specification reads it: the name without a trailing
  \<^verbatim>\<open>.json\<close>.
\<close>

definition strip_json_suffix :: "string \<Rightarrow> string" where
  "strip_json_suffix f = (if suffix ''.json'' f then take (length f - length ''.json'') f else f)"



subsection \<open>Sample registries\<close>

text \<open>
  \<^verbatim>\<open>str\<close> on the decoded values that are not containers; the samples print no list and no
  dictionary, which are left as an ellipsis here.
\<close>

definition str_scalar :: "json \<Rightarrow> string" where
  "str_scalar j =
     (case j of
        JStr s \<Rightarrow> s
      | JNull \<Rightarrow> ''None''
      | JBool b \<Rightarrow> (if b then ''True'' else ''False'')
      | JInt i \<Rightarrow> str_int i
      | JFloat r \<Rightarrow> r
      | _ \<Rightarrow> ''...'')"

text \<open>A network on which every request has the same outcome.\<close>

definition always :: "head_outcome \<Rightarrow> network" where
  "always outcome sent download_url = outcome"

text \<open>
  The descriptor of the specification's first end-to-end scenario, the same with
  \<^verbatim>\<open>latest\<close> naming a version that does not exist (scenario 4), a descriptor whose only
  version is a legacy entry, and a versions block with a legacy entry, an entry without
  \<^verbatim>\<open>download\<close> and an entry with it.
\<close>

definition foo_versions :: pydict where
  "foo_versions =
     [(''latest'', JStr ''1.0''),
      (''1.0'', JObj [(''download'', JStr ''https://example.com/ok'')])]"

definition foo_descriptor :: pydict where
  "foo_descriptor =
     [(''name'', JStr ''foo''), (''author'', JStr ''a''), (''description'', JStr ''d''),
      (''versions'', JObj foo_versions)]"

definition dangling_versions :: pydict where
  "dangling_versions =
     [(''latest'', JStr ''2.0''),
      (''1.0'', JObj [(''download'', JStr ''https://example.com/ok'')])]"

definition dangling_descriptor :: pydict where
  "dangling_descriptor =
     [(''name'', JStr ''foo''), (''author'', JStr ''a''), (''description'', JStr ''d''),
      (''versions'', JObj dangling_versions)]"

definition legacy_descriptor :: pydict where
  "legacy_descriptor =
     [(''name'', JStr ''old''), (''author'', JStr ''a''), (''description'', JStr ''d''),
      (''versions'', JObj [(''latest'', JStr ''0.9''), (''0.9'', JStr ''https://example.com/old'')])]"


definition self_latest_descriptor :: pydict where
  "self_latest_descriptor =
     [(''name'', JStr ''p''), (''author'', JStr ''a''), (''description'', JStr ''d''),
      (''versions'', JObj [(''latest'', JStr ''latest'')])]"

definition foo_index :: json where
  "foo_index = JObj [(''foo'', JObj [])]"

text \<open>
  Registries: a legacy descriptor alone; the descriptor with the dangling \<^verbatim>\<open>latest\<close>
  alone (scenario 4); a directory with a malformed file beside a valid descriptor; and a
  registry without \<^verbatim>\<open>index.json\<close>; and the registry of scenarios 1 and 2.
\<close>

definition legacy_registry :: registry where
  "legacy_registry =
     \<lparr>index_file = Parsed (JObj [(''old'', JObj [])]),
      packages_dir = Dir [(''old.json'', Parsed (JObj legacy_descriptor))]\<rparr>"


definition broken_registry :: registry where
  "broken_registry =
     \<lparr>index_file = Parsed foo_index,
      packages_dir = Dir [(''bad.json'', Malformed), (''foo.json'', Parsed (JObj foo_descriptor))]\<rparr>"

definition foo_registry :: registry where
  "foo_registry =
     \<lparr>index_file = Parsed foo_index,
      packages_dir = Dir [(''foo.json'', Parsed (JObj foo_descriptor))]\<rparr>"

definition no_index_registry :: registry where
  "no_index_registry =
     \<lparr>index_file = Missing,
      packages_dir = Dir [(''foo.json'', Parsed (JObj foo_descriptor))]\<rparr>"

section \<open>Properties of the Python operations\<close>

lemma dict_index_contains: "dict_index d k = Inr v \<Longrightarrow> dict_contains k d"
  by (auto simp: dict_index_def dict_contains_def split: option.splits
      dest: map_of_SomeD intro: rev_image_eqI)

lemmas dict_defs = dict_contains_def dict_get_def dict_index_def dict_keys_def

section \<open>Structure Validator: properties\<close>

text \<open>
  C1, at the input that separates the code from the claim. The descriptor
  \<^verbatim>\<open>{"name": "p", "author": "a", "description": "d", "versions": {"latest": "latest"}}\<close>
  has a \<^verbatim>\<open>latest\<close> whose value equals no key of \<^verbatim>\<open>versions\<close> other than \<^verbatim>\<open>latest\<close>
  itself, so the claim asks for a \<^verbatim>\<open>Latest version ... not found\<close> error; the code tests
  \<^verbatim>\<open>latest not in versions\<close> against all the keys, \<^verbatim>\<open>latest\<close> included, and returns no
  error at all.
\<close>

theorem latest_naming_itself_is_accepted:
  "validate_package_structure py_str ''p'' (JObj self_latest_descriptor) = Inr []
   \<and> dict_index self_latest_descriptor ''versions'' = Inr (JObj [(''latest'', JStr ''latest'')])
   \<and> [k \<leftarrow> dict_keys [(''latest'', JStr ''latest'')]. k \<noteq> ''latest'' \<and> JStr k = JStr ''latest''] = []"
  by (simp add: validate_package_structure_def dict_defs required_fields_def value_in_dict_def
      self_latest_descriptor_def)

text \<open>
  A second such input: a \<^verbatim>\<open>latest\<close> whose value is a list is unhashable, the membership
  test raises \<^verbatim>\<open>TypeError\<close> and no error list is returned.
\<close>

lemma latest_unhashable_raises:
  "validate_package_structure py_str ''p''
     (JObj [(''name'', JStr ''p''), (''author'', JStr ''a''), (''description'', JStr ''d''),
            (''versions'', JObj [(''latest'', JArr [JStr ''1.0'']), (''1.0'', JObj [])])])
   = Inl TypeError"
  by (simp add: validate_package_structure_def dict_defs required_fields_def value_in_dict_def)

text \<open>
  C2: a descriptor whose \<^verbatim>\<open>name\<close> is the package name, that has the four required
  fields, whose \<^verbatim>\<open>versions\<close> is a dictionary with a \<^verbatim>\<open>latest\<close> key, and whose \<^verbatim>\<open>latest\<close>
  is the name of an existing version key, gets an empty error list.
\<close>

theorem valid_descriptor_no_errors:
  assumes "dict_get d ''name'' = JStr package_name"
    and "\<forall>field \<in> set required_fields. dict_contains field d"
    and "dict_index d ''versions'' = Inr (JObj vs)"
    and "dict_contains ''latest'' vs"
    and "dict_index vs ''latest'' = Inr (JStr v)"
    and "v \<noteq> ''latest''" and "dict_contains v vs"
  shows "validate_package_structure py_str package_name (JObj d) = Inr []"
  using assms
  by (simp add: validate_package_structure_def required_fields_def value_in_dict_def)

theorem valid_descriptor_no_errors_witness:
  "dict_get foo_descriptor ''name'' = JStr ''foo''
   \<and> dict_index foo_descriptor ''versions'' = Inr (JObj foo_versions)
   \<and> dict_index foo_versions ''latest'' = Inr (JStr ''1.0'')
   \<and> dict_contains ''1.0'' foo_versions
   \<and> validate_package_structure str_scalar ''foo'' (JObj foo_descriptor) = Inr []"
proof -
  have h: "dict_get foo_descriptor ''name'' = JStr ''foo''"
    "\<forall>field \<in> set required_fields. dict_contains field foo_descriptor"
    "dict_index foo_descriptor ''versions'' = Inr (JObj foo_versions)"
    "dict_contains ''latest'' foo_versions"
    "dict_index foo_versions ''latest'' = Inr (JStr ''1.0'')"
    "''1.0'' \<noteq> ''latest''" "dict_contains ''1.0'' foo_versions"
    by (simp_all add: dict_defs required_fields_def foo_descriptor_def foo_versions_def)
  from valid_descriptor_no_errors [OF h, of str_scalar] h show ?thesis by simp
qed


section \<open>URL Checker: properties\<close>





section \<open>Package names and the Index Consistency Checker: properties\<close>










text \<open>
  C3, at the input that separates the code from the claim: the index
  \<^verbatim>\<open>{"a.json": {}}\<close> with the one package file \<^verbatim>\<open>a.json.json\<close>. The first pass looks for
  \<^verbatim>\<open>a.json.json\<close> and finds it. The stem of the file, the name without its trailing
  \<^verbatim>\<open>.json\<close>, is \<^verbatim>\<open>a.json\<close>, an index key, so the claim asks for no error; the second pass
  removes every \<^verbatim>\<open>.json\<close>, looks for \<^verbatim>\<open>a\<close>, and reports the file.
\<close>

theorem index_consistency_rejects_matching_file:
  "validate_index_consistency (JObj [(''a.json'', JObj [])]) [''a.json.json'']
     = Inr [''Package file 'a.json.json' not referenced in index.json'']
   \<and> strip_json_suffix ''a.json.json'' = ''a.json''
   \<and> dict_contains ''a.json'' [(''a.json'', JObj [])]
   \<and> ''a.json'' @ ''.json'' = ''a.json.json''"
  by (simp add: validate_index_consistency_def dict_defs py_replace.simps squote_def
      strip_json_suffix_def suffix_to_prefix)










section \<open>Package Versions Validator: properties\<close>

text \<open>
  Every error that the loop adds starts with \<^verbatim>\<open>Version\<close> or \<^verbatim>\<open>Invalid\<close>.
\<close>

lemma versions_loop_errors:
  "versions_loop net package_name versions ks (es, ws, sent) = Inr (es', ws', sent') \<Longrightarrow>
   m \<in> set es' \<Longrightarrow> m \<in> set es \<or> hd m = CHR ''V'' \<or> hd m = CHR ''I''"
proof (induction ks arbitrary: es ws sent)
  case Nil
  then show ?case by simp
next
  case (Cons k ks)
  from Cons.prems show ?case
    by (auto split: sum.splits json.splits if_splits prod.splits dest!: Cons.IH)
qed










section \<open>Driver: properties\<close>





text \<open>Runs of the sample registries, evaluated step by step.\<close>

lemma name_foo: "py_replace ''.json'' '''' ''foo.json'' = ''foo''"
  by (simp add: py_replace.simps)

lemma name_old: "py_replace ''.json'' '''' ''old.json'' = ''old''"
  by (simp add: py_replace.simps)

lemma name_bad: "py_replace ''.json'' '''' ''bad.json'' = ''bad''"
  by (simp add: py_replace.simps)

lemma structure_legacy:
  "validate_package_structure str_scalar ''old'' (JObj legacy_descriptor) = Inr []"
  by (simp add: validate_package_structure_def dict_defs legacy_descriptor_def
      required_fields_def value_in_dict_def)

lemma versions_legacy:
  "validate_package_versions net [] ''old'' (JObj legacy_descriptor)
     = Inr ([], [''Version 0.9 is not an object (might be legacy format)''], [])"
  by (simp add: validate_package_versions_def json_contains_def json_index_def dict_defs
      legacy_descriptor_def)

lemma structure_foo:
  "validate_package_structure str_scalar ''foo'' (JObj foo_descriptor) = Inr []"
  by (simp add: validate_package_structure_def dict_defs foo_descriptor_def foo_versions_def
      required_fields_def value_in_dict_def)

lemma versions_foo:
  "validate_package_versions (always (Response 200)) sent ''foo'' (JObj foo_descriptor)
     = Inr ([], [], sent @ [JStr ''https://example.com/ok''])"
  by (simp add: validate_package_versions_def json_contains_def json_index_def dict_defs
      foo_descriptor_def foo_versions_def validate_version_download_url_def always_def)

lemma index_foo: "validate_index_consistency foo_index [''foo.json''] = Inr []"
  by (simp add: validate_index_consistency_def dict_defs foo_index_def name_foo)

lemma index_foo_bad:
  "validate_index_consistency foo_index [''bad.json'', ''foo.json'']
     = Inr [''Package file 'bad.json' not referenced in index.json'']"
  by (simp add: validate_index_consistency_def dict_defs foo_index_def name_foo name_bad
      squote_def)

lemma index_old: "validate_index_consistency (JObj [(''old'', JObj [])]) [''old.json''] = Inr []"
  by (simp add: validate_index_consistency_def dict_defs name_old)

lemma run_legacy:
  "main str_scalar net legacy_registry
     = Inr (0, \<lparr>total_errors = 0, total_warnings = 1, requests = [], validated = [''old'']\<rparr>)"
  by (simp add: main_def legacy_registry_def process_package_def Let_def suffix_to_prefix
      index_old name_old structure_legacy versions_legacy initial_state_def)

text \<open>
  C5, as stated, fails where the run is aborted: without \<^verbatim>\<open>index.json\<close> the driver
  returns 1 and its error counter is still zero.
\<close>

theorem exit_status_counterexample:
  "main str_scalar (always Timeout) no_index_registry = Inr (1, initial_state)
   \<and> total_errors initial_state = 0 \<and> (1::nat) \<noteq> 0"
  by (simp add: main_def no_index_registry_def initial_state_def)

text \<open>
  C5, amended: when \<^verbatim>\<open>index.json\<close> loads and the path \<^verbatim>\<open>packages\<close> exists, a run that
  returns gives exit status 0 exactly when the accumulated error count is zero, and 1
  otherwise; the number of warnings plays no part.
\<close>

theorem exit_status_zero_iff_no_errors:
  assumes "load_json_file (index_file reg) \<noteq> JNull" and "packages_dir reg \<noteq> NoDir"
    and "main py_str net reg = Inr (status, st)"
  shows "(status = 0) = (total_errors st = 0) \<and> (status = 0 \<or> status = 1)"
  using assms
  by (auto simp: main_def Let_def split: dir_state.splits sum.splits if_splits)

theorem exit_status_zero_iff_no_errors_witness:
  "main str_scalar (always Timeout) legacy_registry
     = Inr (0, \<lparr>total_errors = 0, total_warnings = 1, requests = [], validated = [''old'']\<rparr>)
   \<and> ((0::nat) = 0)
       = (total_errors \<lparr>total_errors = 0, total_warnings = 1, requests = [],
                        validated = [''old'']\<rparr> = 0)"
proof -
  have idx: "load_json_file (index_file legacy_registry) \<noteq> JNull"
    and dir: "packages_dir legacy_registry \<noteq> NoDir"
    by (simp_all add: legacy_registry_def)
  from exit_status_zero_iff_no_errors [OF idx dir run_legacy [of "always Timeout"]] run_legacy
  show ?thesis by simp
qed


lemma run_dangling_structure:
  "validate_package_structure str_scalar ''foo'' (JObj dangling_descriptor)
     = Inr [''Latest version '2.0' not found in versions'']"
  by (simp add: validate_package_structure_def dict_defs dangling_descriptor_def
      dangling_versions_def required_fields_def value_in_dict_def str_scalar_def squote_def)

lemma foo_index_not_null: "foo_index \<noteq> JNull"
  by (simp add: foo_index_def)




text \<open>
  C8: when \<^verbatim>\<open>index.json\<close> is malformed, missing or unreadable, and when the packages
  directory is missing, the run ends with exit status 1 in its initial state: no package
  was looked at, nothing was counted and no request was sent. A package file that is
  malformed, missing or unreadable adds exactly one to the error counter, and the loop goes
  on with the files that remain.
\<close>

theorem load_failures:
  "(index_file reg \<in> {Malformed, Missing, Unreadable} \<longrightarrow>
      main py_str net reg = Inr (1, initial_state))
 \<and> (packages_dir reg = NoDir \<longrightarrow> main py_str net reg = Inr (1, initial_state))
 \<and> validated initial_state = [] \<and> requests initial_state = []
 \<and> total_errors initial_state = 0 \<and> total_warnings initial_state = 0
 \<and> (fs \<in> {Malformed, Missing, Unreadable} \<longrightarrow>
      process_package py_str net (f, fs) st
        = Inr (st\<lparr>validated := validated st @ [py_replace ''.json'' '''' f],
                 total_errors := total_errors st + 1\<rparr>)
      \<and> package_loop py_str net ((f, fs) # rest) st
        = package_loop py_str net rest
            (st\<lparr>validated := validated st @ [py_replace ''.json'' '''' f],
                total_errors := total_errors st + 1\<rparr>))"
  by (auto simp: main_def initial_state_def process_package_def Let_def)

theorem load_failures_witness:
  "main str_scalar (always (Response 200)) no_index_registry = Inr (1, initial_state)
   \<and> package_loop str_scalar (always (Response 200))
        [(''bad.json'', Malformed), (''foo.json'', Parsed (JObj foo_descriptor))] initial_state
     = Inr \<lparr>total_errors = 1, total_warnings = 0, requests = [JStr ''https://example.com/ok''],
            validated = [''bad'', ''foo'']\<rparr>
   \<and> main str_scalar (always (Response 200)) broken_registry
     = Inr (1, \<lparr>total_errors = 2, total_warnings = 0,
                requests = [JStr ''https://example.com/ok''], validated = [''bad'', ''foo'']\<rparr>)"
proof -
  let ?net = "always (Response 200)"
  have a: "main str_scalar ?net no_index_registry = Inr (1, initial_state)"
    using load_failures [where reg = no_index_registry and py_str = str_scalar and net = ?net,
        THEN conjunct1]
    by (simp add: no_index_registry_def)
  have step: "package_loop str_scalar ?net
        [(''bad.json'', Malformed), (''foo.json'', Parsed (JObj foo_descriptor))] st
     = package_loop str_scalar ?net [(''foo.json'', Parsed (JObj foo_descriptor))]
         (st\<lparr>validated := validated st @ [''bad''], total_errors := total_errors st + 1\<rparr>)" for st
    using load_failures [where fs = Malformed and f = "''bad.json''" and py_str = str_scalar
        and net = ?net and st = st and rest = "[(''foo.json'', Parsed (JObj foo_descriptor))]",
        THEN conjunct2, THEN conjunct2, THEN conjunct2, THEN conjunct2, THEN conjunct2,
        THEN conjunct2]
    by (simp add: name_bad)
  have b: "package_loop str_scalar ?net
        [(''bad.json'', Malformed), (''foo.json'', Parsed (JObj foo_descriptor))] initial_state
     = Inr \<lparr>total_errors = 1, total_warnings = 0, requests = [JStr ''https://example.com/ok''],
            validated = [''bad'', ''foo'']\<rparr>"
    unfolding step
    by (simp add: process_package_def Let_def name_foo structure_foo versions_foo
        initial_state_def)
  have c: "main str_scalar ?net broken_registry
     = Inr (1, \<lparr>total_errors = 2, total_warnings = 0,
                requests = [JStr ''https://example.com/ok''], validated = [''bad'', ''foo'']\<rparr>)"
    unfolding main_def
    by (simp add: broken_registry_def Let_def suffix_to_prefix index_foo_bad step foo_index_not_null)
       (simp add: process_package_def Let_def name_foo name_bad structure_foo versions_foo
        initial_state_def)
  from a b c show ?thesis by simp
qed


text \<open>
  C9: a descriptor for which the Structure Validator returns no error is a dictionary
  with a \<^verbatim>\<open>versions\<close> key whose value is a dictionary. The test \<^verbatim>\<open>"versions" not in
  package_data\<close> of \<^verbatim>\<open>validate_package_versions\<close> is then false, the function runs its
  loop, and \<^verbatim>\<open>Missing versions data\<close> is not among the errors it returns. The driver
  validates versions only after the Structure Validator has returned no error: a package
  whose processing sent a request or counted a warning passed the Structure Validator.
\<close>

theorem missing_versions_branch_unreachable:
  "(validate_package_structure py_str package_name package_data = Inr [] \<longrightarrow>
      json_contains ''versions'' package_data = Inr True
      \<and> (\<exists>d vs. package_data = JObj d \<and> dict_index d ''versions'' = Inr (JObj vs)
            \<and> validate_package_versions net sent package_name package_data
                = versions_loop net package_name vs
                    [k \<leftarrow> dict_keys vs. k \<notin> set [''latest'']] ([], [], sent))
      \<and> (\<forall>es ws sent'.
            validate_package_versions net sent package_name package_data = Inr (es, ws, sent')
            \<longrightarrow> ''Missing versions data'' \<notin> set es))
 \<and> (process_package py_str net (f, fs) st = Inr st'
      \<and> (requests st' \<noteq> requests st \<or> total_warnings st' \<noteq> total_warnings st) \<longrightarrow>
      validate_package_structure py_str (py_replace ''.json'' '''' f) (load_json_file fs) = Inr [])"
proof (intro conjI impI)
  assume ok: "validate_package_structure py_str package_name package_data = Inr []"
  then obtain d vs where d: "package_data = JObj d" "dict_contains ''versions'' d"
      "dict_index d ''versions'' = Inr (JObj vs)"
    by (auto simp: validate_package_structure_def required_fields_def Let_def
        split: json.splits if_splits sum.splits)
  then have loop: "validate_package_versions net sent package_name package_data
      = versions_loop net package_name vs [k \<leftarrow> dict_keys vs. k \<notin> set [''latest'']] ([], [], sent)"
    by (simp add: validate_package_versions_def json_contains_def json_index_def)
  show "json_contains ''versions'' package_data = Inr True"
    using d by (simp add: json_contains_def)
  show "\<exists>d vs. package_data = JObj d \<and> dict_index d ''versions'' = Inr (JObj vs)
            \<and> validate_package_versions net sent package_name package_data
                = versions_loop net package_name vs
                    [k \<leftarrow> dict_keys vs. k \<notin> set [''latest'']] ([], [], sent)"
    using d loop by blast
  show "\<forall>es ws sent'.
            validate_package_versions net sent package_name package_data = Inr (es, ws, sent')
            \<longrightarrow> ''Missing versions data'' \<notin> set es"
  proof (intro allI impI)
    fix es ws sent'
    assume "validate_package_versions net sent package_name package_data = Inr (es, ws, sent')"
    from versions_loop_errors [OF this [unfolded loop], of "''Missing versions data''"]
    show "''Missing versions data'' \<notin> set es" by auto
  qed
next
  assume a: "process_package py_str net (f, fs) st = Inr st'
      \<and> (requests st' \<noteq> requests st \<or> total_warnings st' \<noteq> total_warnings st)"
  show "validate_package_structure py_str (py_replace ''.json'' '''' f) (load_json_file fs) = Inr []"
  proof (cases "load_json_file fs = JNull")
    case True
    with a show ?thesis by (auto simp: process_package_def Let_def)
  next
    case False
    show ?thesis
    proof (cases "validate_package_structure py_str (py_replace ''.json'' '''' f) (load_json_file fs)")
      case (Inl e)
      with a False show ?thesis by (simp add: process_package_def Let_def)
    next
      case (Inr errs)
      show ?thesis
      proof (cases "errs = []")
        case True
        with Inr show ?thesis by simp
      next
        case ne: False
        with a False Inr show ?thesis by (auto simp: process_package_def Let_def)
      qed
    qed
  qed
qed

theorem missing_versions_branch_unreachable_witness:
  "validate_package_structure str_scalar ''foo'' (JObj foo_descriptor) = Inr []
   \<and> json_contains ''versions'' (JObj foo_descriptor) = Inr True
   \<and> validate_package_versions (always (Response 200)) [] ''foo'' (JObj foo_descriptor)
       = Inr ([], [], [JStr ''https://example.com/ok''])
   \<and> ''Missing versions data'' \<notin> set ([] :: string list)"
proof -
  note t = missing_versions_branch_unreachable [where py_str = str_scalar
      and package_name = "''foo''" and package_data = "JObj foo_descriptor"
      and net = "always (Response 200)" and sent = "[]",
      THEN conjunct1, rule_format, OF structure_foo]
  from t [THEN conjunct1] structure_foo versions_foo [of "[]"]
  show ?thesis by simp
qed


section \<open>Further properties\<close>

text \<open>
  What the Structure Validator does with \<^verbatim>\<open>latest\<close>: when \<^verbatim>\<open>versions\<close> is a dictionary
  with a \<^verbatim>\<open>latest\<close> key whose value is hashable, an error list is returned, and the
  \<^verbatim>\<open>Latest version ... not found\<close> error is in it exactly when the value is not a key of
  \<^verbatim>\<open>versions\<close>, the key \<^verbatim>\<open>latest\<close> itself being one of the keys.
\<close>

theorem latest_error_iff_not_a_key:
  assumes "dict_index d ''versions'' = Inr (JObj vs)"
    and "dict_index vs ''latest'' = Inr latest"
    and "hashable latest"
  shows "\<exists>errs. validate_package_structure py_str package_name (JObj d) = Inr errs
           \<and> ((''Latest version '' @ squote (py_str latest) @ '' not found in versions'') \<in> set errs)
               = (latest \<notin> JStr ` set (dict_keys vs))"
proof -
  have v: "dict_contains ''versions'' d" and l: "dict_contains ''latest'' vs"
    using assms dict_index_contains by blast+
  have found: "value_in_dict latest vs = Inr (latest \<in> JStr ` set (dict_keys vs))"
    using assms(3) by (cases latest) (auto simp: value_in_dict_def dict_contains_def dict_keys_def)
  show ?thesis
    using v l assms(1,2) found
    by (auto simp: validate_package_structure_def Let_def required_fields_def)
qed

theorem latest_error_iff_not_a_key_witness:
  "validate_package_structure str_scalar ''foo'' (JObj dangling_descriptor)
     = Inr [''Latest version '2.0' not found in versions'']
   \<and> JStr ''2.0'' \<notin> JStr ` set (dict_keys dangling_versions)"
proof -
  have h: "dict_index dangling_descriptor ''versions'' = Inr (JObj dangling_versions)"
    "dict_index dangling_versions ''latest'' = Inr (JStr ''2.0'')" "hashable (JStr ''2.0'')"
    by (simp_all add: dict_defs dangling_descriptor_def dangling_versions_def)
  from latest_error_iff_not_a_key [OF h, of str_scalar "''foo''"] run_dangling_structure
  show ?thesis by (simp add: str_scalar_def squote_def)
qed

text \<open>
  What the Index Consistency Checker returns, for an index whose keys are distinct and
  package files whose names are distinct: a list without repetition that holds the
  index error of exactly the index keys \<open>k\<close> with no file \<open>k.json\<close>, and the file error
  of exactly the files whose name with every \<^verbatim>\<open>.json\<close> removed is not an index key.
\<close>

lemma concat_if_map_filter:
  "concat (map (\<lambda>x. if P x then [f x] else []) xs) = map f (filter P xs)"
  by (induction xs) simp_all

lemma index_consistency_result:
  "validate_index_consistency (JObj idx) files
     = Inr (map (\<lambda>k. ''Package '' @ squote k
                      @ '' in index.json but no corresponding file in packages/'')
              [k \<leftarrow> dict_keys idx. k @ ''.json'' \<notin> set files]
            @ map (\<lambda>g. ''Package file '' @ squote g @ '' not referenced in index.json'')
                [g \<leftarrow> files. py_replace ''.json'' '''' g \<notin> set (dict_keys idx)])"
  by (simp add: validate_index_consistency_def concat_if_map_filter)

theorem index_consistency_one_error_each:
  assumes "distinct (dict_keys idx)" and "distinct files"
  shows "\<exists>errs. validate_index_consistency (JObj idx) files = Inr errs
     \<and> distinct errs
     \<and> length errs = length [k \<leftarrow> dict_keys idx. k @ ''.json'' \<notin> set files]
         + length [g \<leftarrow> files. py_replace ''.json'' '''' g \<notin> set (dict_keys idx)]
     \<and> (\<forall>k. ((''Package '' @ squote k
                @ '' in index.json but no corresponding file in packages/'') \<in> set errs)
             = (k \<in> set (dict_keys idx) \<and> k @ ''.json'' \<notin> set files))
     \<and> (\<forall>g. ((''Package file '' @ squote g @ '' not referenced in index.json'') \<in> set errs)
             = (g \<in> set files \<and> py_replace ''.json'' '''' g \<notin> set (dict_keys idx)))"
proof -
  define im where "im = (\<lambda>k. ''Package '' @ squote k
                      @ '' in index.json but no corresponding file in packages/'')"
  define fm where "fm = (\<lambda>g. ''Package file '' @ squote g @ '' not referenced in index.json'')"
  define A where "A = [k \<leftarrow> dict_keys idx. k @ ''.json'' \<notin> set files]"
  define B where "B = [g \<leftarrow> files. py_replace ''.json'' '''' g \<notin> set (dict_keys idx)]"
  have res: "validate_index_consistency (JObj idx) files = Inr (map im A @ map fm B)"
    unfolding im_def fm_def A_def B_def by (rule index_consistency_result)
  have inj_i: "inj im" unfolding im_def by (rule injI) (simp add: squote_def)
  have inj_f: "inj fm" unfolding fm_def by (rule injI) (simp add: squote_def)
  have apart: "im k \<noteq> fm g" for k g unfolding im_def fm_def by (simp add: squote_def)
  have dA: "distinct A" and dB: "distinct B" using assms by (simp_all add: A_def B_def)
  have iA: "inj_on im (set A)" using inj_i by (rule inj_on_subset) simp
  have iB: "inj_on fm (set B)" using inj_f by (rule inj_on_subset) simp
  have disj: "im ` set A \<inter> fm ` set B = {}" using apart by blast
  have d: "distinct (map im A @ map fm B)"
    using dA dB iA iB disj by (simp add: distinct_map)
  have mi: "(im k \<in> set (map im A @ map fm B)) = (k \<in> set A)" for k
  proof -
    have "im k \<notin> fm ` set B" using apart by blast
    then show ?thesis using inj_image_mem_iff [OF inj_i, of k "set A"] by simp
  qed
  have mf: "(fm g \<in> set (map im A @ map fm B)) = (g \<in> set B)" for g
  proof -
    have "fm g \<notin> im ` set A" using apart by (metis imageE)
    then show ?thesis using inj_image_mem_iff [OF inj_f, of g "set B"] by simp
  qed
  have "\<exists>errs. validate_index_consistency (JObj idx) files = Inr errs
     \<and> distinct errs
     \<and> length errs = length A + length B
     \<and> (\<forall>k. (im k \<in> set errs) = (k \<in> set A))
     \<and> (\<forall>g. (fm g \<in> set errs) = (g \<in> set B))"
    using res d mi mf by simp
  then show ?thesis
    unfolding im_def fm_def A_def B_def by simp
qed

theorem index_consistency_one_error_each_witness:
  "validate_index_consistency foo_index [''bad.json'', ''foo.json'']
     = Inr [''Package file 'bad.json' not referenced in index.json'']
   \<and> distinct [''Package file 'bad.json' not referenced in index.json'']"
proof -
  have h: "distinct (dict_keys [(''foo'', JObj [])])" "distinct [''bad.json'', ''foo.json'']"
    by (simp_all add: dict_defs)
  from index_consistency_one_error_each [OF h] index_foo_bad
  show ?thesis by (simp add: foo_index_def)
qed


text \<open>
  The first two end-to-end scenarios of the specification: with the index
  \<^verbatim>\<open>{"foo": {}}\<close> and the descriptor \<^verbatim>\<open>packages/foo.json\<close>, a download URL that answers
  200 gives exit status 0 and no error; one that answers 404 gives one error and exit
  status 1. Either way one request is sent.
\<close>

lemma versions_foo_404:
  "validate_package_versions (always (Response 404)) sent ''foo'' (JObj foo_descriptor)
     = Inr ([''Invalid download URL for foo@1.0: URL not found (404) for version 1.0''], [],
            sent @ [JStr ''https://example.com/ok''])"
  by (simp add: validate_package_versions_def json_contains_def json_index_def dict_defs
      foo_descriptor_def foo_versions_def validate_version_download_url_def always_def)

theorem end_to_end_scenarios:
  "main str_scalar (always (Response 200)) foo_registry
     = Inr (0, \<lparr>total_errors = 0, total_warnings = 0,
                requests = [JStr ''https://example.com/ok''], validated = [''foo'']\<rparr>)
   \<and> main str_scalar (always (Response 404)) foo_registry
     = Inr (1, \<lparr>total_errors = 1, total_warnings = 0,
                requests = [JStr ''https://example.com/ok''], validated = [''foo'']\<rparr>)"
  by (simp add: main_def foo_registry_def process_package_def Let_def suffix_to_prefix
      index_foo foo_index_not_null name_foo structure_foo versions_foo versions_foo_404
      initial_state_def)

end
